theory Spec2Isabelle
  imports Main "HOL-Library.Word" "HOL-Library.AList"
begin

section \<open>The p2p switch of gohotstuff\<close>

text \<open>
  A shallow embedding of the \<^verbatim>\<open>Switch\<close> of package \<^verbatim>\<open>p2p\<close>: the reactor
  table, peer admission on the outbound (\<^verbatim>\<open>dialPeersAsync\<close>) and inbound
  (\<^verbatim>\<open>handleStream\<close>) paths, \<^verbatim>\<open>connect\<close>, \<^verbatim>\<open>bootstrap\<close>, \<^verbatim>\<open>Start\<close>,
  \<^verbatim>\<open>Send\<close> and \<^verbatim>\<open>Broadcast\<close>.

  Every function takes the switch and returns it updated. What the switch does to its
  collaborators (the libp2p host, the DHT client, the peer objects) is kept as the list
  \<open>calls\<close> of the calls it made, in order; what it writes to its logger is kept as the
  list \<open>log\<close>. The collaborators answer through the record \<open>env\<close>: an answer that can
  change with time is a function of the calls made so far.
\<close>

subsection \<open>Data\<close>

type_synonym peer_ID = string      \<comment> \<open>\<^verbatim>\<open>peer.ID\<close>, a Go string; its zero value is the empty string\<close>
type_synonym bytes = "8 word list"
type_synonym int32 = "32 word"
type_synonym int64 = "64 word"
type_synonym Module = string       \<comment> \<open>declared elsewhere in the package; printed with \<^verbatim>\<open>%s\<close>\<close>
type_synonym Reactor = nat         \<comment> \<open>\<^verbatim>\<open>libs.Reactor\<close>: the handler object, by identity\<close>
type_synonym PrivKey = bytes
type_synonym Multiaddr = string

record Config =
  Address :: string
  BootStrap :: "string list"
  PrivateKey :: string
  PublicKey :: string
  TickerTimeSec :: int64

record AddrInfo =
  ai_ID :: peer_ID
  ai_Addrs :: "Multiaddr list"

record Stream =
  handle :: nat
  RemotePeer :: peer_ID     \<comment> \<open>\<^verbatim>\<open>netStream.Conn().RemotePeer()\<close>\<close>

record Host =
  host_ID :: peer_ID
  host_Addrs :: "Multiaddr list"

text \<open>
  Modelled from the spec: the \<^verbatim>\<open>Peer\<close> built by \<^verbatim>\<open>NewDefaultPeer\<close>, which the
  package defines in another file. The spec gives it the remote identity's address info and the stream it
  wraps; its reactor table is the switch's own, shared.
\<close>

record Peer =
  info :: AddrInfo
  stream :: Stream

text \<open>
  Modelled from the spec: \<^verbatim>\<open>PeerSet\<close>, which the package defines in another file.
  The spec makes it a mapping from identity to peer; it is kept as an association list so that the
  traversal of \<^verbatim>\<open>Range\<close> can be run.
\<close>

type_synonym PeerSet = "(peer_ID \<times> Peer) list"

datatype error = LibError string | Errorf string "larg list"
  and larg = LErr "error option" | LStr string | LI32 int32 | LBytes bytes | LCfg Config

datatype level = Info | Error

type_synonym log_entry = "level \<times> string \<times> larg list"

datatype event =
    EvHostNew string PrivKey
  | EvSetStreamHandler string
  | EvDhtNew Host
  | EvDhtBootstrap
  | EvGo string
  | EvListPeers
  | EvRemovePeer peer_ID
  | EvConnect AddrInfo
  | EvNewStream peer_ID string
  | EvStreamClose Stream
  | EvPeerInfo peer_ID
  | EvNewDefaultPeer AddrInfo Stream
  | EvValidate Peer
  | EvPeerStart Peer
  | EvPeerSend Peer int32 bytes

record Switch =
  cfg :: Config
  id_sw :: "Multiaddr option"
  host :: "Host option"
  kdht :: bool
  peers :: PeerSet
  reactor :: "Module \<rightharpoonup> Reactor"
  log :: "log_entry list"
  calls :: "event list"

text \<open>
  The ticker, the quit channel and the mutex of the Go struct are left out: no function
  below reads them. \<open>kdht\<close> tells whether the DHT client has been built.
\<close>

record env =
  base64_DecodeString :: "string \<Rightarrow> error + bytes"
  UnmarshalPrivateKey :: "bytes \<Rightarrow> error + PrivKey"
  libp2p_New :: "event list \<Rightarrow> string \<Rightarrow> PrivKey \<Rightarrow> error + Host"
  dht_New :: "event list \<Rightarrow> Host \<Rightarrow> error option"
  kdht_Bootstrap :: "event list \<Rightarrow> error option"
  ListPeers :: "event list \<Rightarrow> peer_ID list"
  Pretty :: "peer_ID \<Rightarrow> string"
  ipfsaddr_ParseString :: "string \<Rightarrow> error + Multiaddr"
  AddrInfoFromP2pAddr :: "Multiaddr \<Rightarrow> error + AddrInfo"
  host_Connect :: "event list \<Rightarrow> AddrInfo \<Rightarrow> error option"
  host_NewStream :: "event list \<Rightarrow> peer_ID \<Rightarrow> error + Stream"
  Peerstore_Addrs :: "event list \<Rightarrow> peer_ID \<Rightarrow> Multiaddr list"
  peer_Decode :: "string \<Rightarrow> error + peer_ID"
  NewDefaultPeer :: "event list \<Rightarrow> AddrInfo \<Rightarrow> Stream \<Rightarrow> error option"
  peer_Validate :: "event list \<Rightarrow> Peer \<Rightarrow> error option"
  peer_Send :: "event list \<Rightarrow> Peer \<Rightarrow> int32 \<Rightarrow> bytes \<Rightarrow> bool"

definition protocolPrefix :: string where
  "protocolPrefix = ''/gohotstuff/p2p''"

definition defaultTickerTimeSec :: int64 where
  "defaultTickerTimeSec = 4"

definition call :: "event \<Rightarrow> Switch \<Rightarrow> Switch" where
  "call e sw = sw\<lparr>calls := calls sw @ [e]\<rparr>"

definition log_Info :: "string \<Rightarrow> larg list \<Rightarrow> Switch \<Rightarrow> Switch" where
  "log_Info fmt args sw = sw\<lparr>log := log sw @ [(Info, fmt, args)]\<rparr>"

definition log_Error :: "string \<Rightarrow> larg list \<Rightarrow> Switch \<Rightarrow> Switch" where
  "log_Error fmt args sw = sw\<lparr>log := log sw @ [(Error, fmt, args)]\<rparr>"

subsection \<open>PeerSet\<close>

definition ErrPeerNotFound :: error where
  "ErrPeerNotFound = Errorf ''peer not found'' []"

definition NewPeerSet :: PeerSet where
  "NewPeerSet = []"

text \<open>
  Modelled from the spec: \<^verbatim>\<open>PeerSet.Find\<close> looks the identity up and fails with
  "peer not found" when it is absent.
\<close>

definition Find :: "PeerSet \<Rightarrow> peer_ID \<Rightarrow> error + Peer" where
  "Find ps i = (case map_of ps i of None \<Rightarrow> Inl ErrPeerNotFound | Some p \<Rightarrow> Inr p)"

text \<open>
  Modelled from the spec: \<^verbatim>\<open>PeerSet.Add\<close> stores the peer under its remote identity;
  an entry already there is replaced.
\<close>

definition Add :: "PeerSet \<Rightarrow> Peer \<Rightarrow> PeerSet" where
  "Add ps p = AList.update (ai_ID (info p)) p ps"

subsection \<open>NewSwitch and AddReactor\<close>

definition NewSwitch :: "Config \<Rightarrow> Switch" where
  "NewSwitch c =
     (let c1 = (if TickerTimeSec c = 0 then c\<lparr>TickerTimeSec := defaultTickerTimeSec\<rparr> else c);
          sw = \<lparr>cfg = c1, id_sw = None, host = None, kdht = False, peers = NewPeerSet,
                reactor = Map.empty, log = [], calls = []\<rparr>
      in log_Info ''new a switch succ, cfg: %+v'' [LCfg c1] sw)"

definition AddReactor :: "Module \<Rightarrow> Reactor \<Rightarrow> Switch \<Rightarrow> error option \<times> Switch" where
  "AddReactor mo f sw =
     (case reactor sw mo of
        Some _ \<Rightarrow> (Some (Errorf ''module has been registered before, %v'' [LStr mo]), sw)
      | None \<Rightarrow>
          (None, log_Info ''[module %s] registered'' [LStr mo] (sw\<lparr>reactor := (reactor sw)(mo \<mapsto> f)\<rparr>)))"

subsection \<open>Calls on the collaborators\<close>

text \<open>
  Each call is answered from the calls made so far, and is then itself recorded. The
  methods of a peer (\<^verbatim>\<open>Validate\<close>, \<^verbatim>\<open>Send\<close>, \<^verbatim>\<open>Start\<close>) are defined in another file
  of the package: what they answer is taken from the environment.
\<close>

definition Validate :: "env \<Rightarrow> Peer \<Rightarrow> Switch \<Rightarrow> error option \<times> Switch" where
  "Validate env p sw = (peer_Validate env (calls sw) p, call (EvValidate p) sw)"

definition NewStream :: "env \<Rightarrow> peer_ID \<Rightarrow> string \<Rightarrow> Switch \<Rightarrow> (error + Stream) \<times> Switch" where
  "NewStream env i proto sw = (host_NewStream env (calls sw) i, call (EvNewStream i proto) sw)"

text \<open>\<^verbatim>\<open>Peerstore().PeerInfo(id)\<close> of libp2p pairs the identity asked for with its known addresses.\<close>

definition Peerstore_PeerInfo :: "env \<Rightarrow> peer_ID \<Rightarrow> Switch \<Rightarrow> AddrInfo \<times> Switch" where
  "Peerstore_PeerInfo env i sw =
     (\<lparr>ai_ID = i, ai_Addrs = Peerstore_Addrs env (calls sw) i\<rparr>, call (EvPeerInfo i) sw)"

text \<open>
  \<^verbatim>\<open>NewDefaultPeer\<close> is defined in another file of the package: whether it fails is
  an answer of the environment, and the peer it builds is the one of the record above.
\<close>

definition NewDefaultPeer_call ::
  "env \<Rightarrow> AddrInfo \<Rightarrow> Stream \<Rightarrow> Switch \<Rightarrow> (error + Peer) \<times> Switch" where
  "NewDefaultPeer_call env raw s sw =
     ((case NewDefaultPeer env (calls sw) raw s of
         Some err \<Rightarrow> Inl err
       | None \<Rightarrow> Inr \<lparr>info = raw, stream = s\<rparr>),
      call (EvNewDefaultPeer raw s) sw)"

definition Connect :: "env \<Rightarrow> AddrInfo \<Rightarrow> Switch \<Rightarrow> error option \<times> Switch" where
  "Connect env ai sw = (host_Connect env (calls sw) ai, call (EvConnect ai) sw)"

definition RoutingTable_ListPeers :: "env \<Rightarrow> Switch \<Rightarrow> peer_ID list \<times> Switch" where
  "RoutingTable_ListPeers env sw = (ListPeers env (calls sw), call EvListPeers sw)"

definition Peer_Send :: "env \<Rightarrow> Peer \<Rightarrow> int32 \<Rightarrow> bytes \<Rightarrow> Switch \<Rightarrow> bool \<times> Switch" where
  "Peer_Send env p chID msgBytes sw =
     (peer_Send env (calls sw) p chID msgBytes, call (EvPeerSend p chID msgBytes) sw)"

subsection \<open>Peer admission\<close>

definition dialPeersAsync :: "env \<Rightarrow> peer_ID \<Rightarrow> Switch \<Rightarrow> error option \<times> Switch" where
  "dialPeersAsync env i sw =
     (let (usable, sw1) =
            (case Find (peers sw) i of
               Inl err \<Rightarrow> (False, sw)
             | Inr old \<Rightarrow> (case Validate env old sw of (v, sw') \<Rightarrow> (v = None, sw')))
      in if usable then (None, sw1)
         else
           (case NewStream env i protocolPrefix sw1 of
              (Inl err, sw2) \<Rightarrow>
                (Some err,
                 log_Error ''host make newstream fail @ DialPeersAsync, peer_id: %s, err: %v''
                   [LStr (Pretty env i), LErr (Some err)] sw2)
            | (Inr s, sw2) \<Rightarrow>
                (case Peerstore_PeerInfo env i sw2 of
                   (rawPeer, sw3) \<Rightarrow>
                     (case NewDefaultPeer_call env rawPeer s sw3 of
                        (Inl err, sw4) \<Rightarrow>
                          (Some err,
                           call (EvRemovePeer i)
                             (call (EvStreamClose s)
                               (log_Error ''new remote peer fail @ DialPeersAsync, peer_id: %s, err: %v''
                                  [LStr (Pretty env i), LErr (Some err)] sw4)))
                      | (Inr p, sw4) \<Rightarrow>
                          (None, call (EvPeerStart p) (sw4\<lparr>peers := Add (peers sw4) p\<rparr>))))))"

definition handleStream :: "env \<Rightarrow> Stream \<Rightarrow> Switch \<Rightarrow> Switch" where
  "handleStream env netStream sw =
     (let (usable, sw1) =
            (case Find (peers sw) (RemotePeer netStream) of
               Inl err \<Rightarrow> (False, sw)
             | Inr old \<Rightarrow> (case Validate env old sw of (v, sw') \<Rightarrow> (v = None, sw')))
      in if usable
         then log_Error ''use an old one @ handleStream, peer_id: %s'' [LStr (RemotePeer netStream)] sw1
         else
           (case Peerstore_PeerInfo env (RemotePeer netStream) sw1 of
              (p, sw2) \<Rightarrow>
                (case NewDefaultPeer_call env p netStream sw2 of
                   (Inl err, sw3) \<Rightarrow>
                     log_Error ''new remote peer fail @ handleStream, peer_id: %s, err: %v''
                       [LStr (RemotePeer netStream), LErr (Some err)] sw3
                 | (Inr pr, sw3) \<Rightarrow>
                     log_Info ''build stream success from a new remote peer @ handleStream, peer_id: %s''
                       [LStr (RemotePeer netStream)]
                       (call (EvPeerStart pr) (sw3\<lparr>peers := Add (peers sw3) pr\<rparr>)))))"

text \<open>
  Connection attempts as they reach the switch one after the other: an outbound dial
  of an identity, or an inbound stream handed over by the host.
\<close>

datatype attempt = Outbound peer_ID | Inbound Stream

fun target :: "attempt \<Rightarrow> peer_ID" where
  "target (Outbound i) = i"
| "target (Inbound s) = RemotePeer s"

fun admit :: "env \<Rightarrow> attempt \<Rightarrow> Switch \<Rightarrow> Switch" where
  "admit env (Outbound i) sw = snd (dialPeersAsync env i sw)"
| "admit env (Inbound s) sw = handleStream env s sw"

fun admit_all :: "env \<Rightarrow> attempt list \<Rightarrow> Switch \<Rightarrow> Switch" where
  "admit_all env [] sw = sw"
| "admit_all env (a # as) sw = admit_all env as (admit env a sw)"

subsection \<open>connect and bootstrap\<close>

definition connect :: "env \<Rightarrow> string \<Rightarrow> Switch \<Rightarrow> error option \<times> Switch" where
  "connect env multiAddr sw =
     (case ipfsaddr_ParseString env multiAddr of
        Inl err \<Rightarrow>
          (Some err,
           log_Error ''parse string failed @ p2p.acceptRoutine, multi_peer: %s, err: %v''
             [LStr multiAddr, LErr (Some err)] sw)
      | Inr peerAddr \<Rightarrow>
          (case AddrInfoFromP2pAddr env peerAddr of
             Inl err \<Rightarrow>
               (Some err,
                log_Error ''add addrinfo failed @ p2p.acceptRoutine, multi_peer: %s, err: %v''
                  [LStr multiAddr, LErr (Some err)] sw)
           | Inr addrInfo \<Rightarrow>
               (case Connect env addrInfo sw of
                  (Some err, sw1) \<Rightarrow>
                    (Some err,
                     log_Error ''host connect failed @ p2p.acceptRoutine, peer_id: %s, err: %v''
                       [LStr (Pretty env (ai_ID addrInfo)), LErr (Some err)] sw1)
                | (None, sw1) \<Rightarrow>
                    (case dialPeersAsync env (ai_ID addrInfo) sw1 of
                       (Some err, sw2) \<Rightarrow>
                         (None,
                          log_Error ''dial fail @ p2p.acceptRoutine peer_id: %s, err: %v''
                            [LStr (Pretty env (ai_ID addrInfo)), LErr (Some err)] sw2)
                     | (None, sw2) \<Rightarrow> (None, sw2)))))"

text \<open>One pass of the \<^verbatim>\<open>for\<close> loop of \<^verbatim>\<open>bootstrap\<close> over the configured addresses.\<close>

fun bootstrap_pass :: "env \<Rightarrow> string list \<Rightarrow> Switch \<Rightarrow> Switch" where
  "bootstrap_pass env [] sw = sw"
| "bootstrap_pass env (peerMultiID # rest) sw =
     (case connect env peerMultiID sw of
        (Some err, sw1) \<Rightarrow> bootstrap_pass env rest sw1
      | (None, sw1) \<Rightarrow>
          bootstrap_pass env rest
            (log_Info ''build stream success @ bootstrap remote_peer: %s'' [LStr peerMultiID] sw1))"

text \<open>
  The \<^verbatim>\<open>retry:\<close> label with its \<^verbatim>\<open>goto\<close>: a loop with no bound in the source, so a
  partial function; \<open>None\<close> is the loop that never leaves.
\<close>

partial_function (option) bootstrap_retry :: "env \<Rightarrow> Switch \<Rightarrow> Switch option" where
  "bootstrap_retry env sw =
     (case RoutingTable_ListPeers env (bootstrap_pass env (BootStrap (cfg sw)) sw) of
        (ps, sw1) \<Rightarrow> if length ps = 0 then bootstrap_retry env sw1 else Some sw1)"

declare bootstrap_retry.simps [code]

definition bootstrap :: "env \<Rightarrow> Switch \<Rightarrow> (error option \<times> Switch) option" where
  "bootstrap env sw =
     (case kdht_Bootstrap env (calls sw) of
        Some err \<Rightarrow>
          Some (Some err,
                log_Error ''kdht bootstrap failed @ p2p.bootstrap, err: %v'' [LErr (Some err)]
                  (call EvDhtBootstrap sw))
      | None \<Rightarrow> map_option (Pair None) (bootstrap_retry env (call EvDhtBootstrap sw)))"

subsection \<open>Start\<close>

text \<open>
  A call either returns or panics; \<^verbatim>\<open>sw.host.Addrs()[0]\<close> panics on a host without
  addresses. \<open>None\<close> is a \<^verbatim>\<open>Start\<close> that never returns, its \<^verbatim>\<open>bootstrap\<close> looping.
\<close>

datatype 'a outcome = Returns 'a | Panics string

definition Start :: "env \<Rightarrow> Switch \<Rightarrow> (error option \<times> Switch) outcome option" where
  "Start env sw =
     (case base64_DecodeString env (PrivateKey (cfg sw)) of
        Inl err \<Rightarrow> Some (Returns (Some err, sw))
      | Inr privData \<Rightarrow>
          (case UnmarshalPrivateKey env privData of
             Inl err \<Rightarrow> Some (Returns (Some err, sw))
           | Inr priv \<Rightarrow>
               (case libp2p_New env (calls sw) (Address (cfg sw)) priv of
                  Inl err \<Rightarrow>
                    Some (Returns (Some err,
                      log_Error ''new libp2p host failed @ p2p.Start, err: %v'' [LErr (Some err)]
                        (call (EvHostNew (Address (cfg sw)) priv) sw)))
                | Inr h \<Rightarrow>
                    (let sw1 = call (EvSetStreamHandler protocolPrefix)
                                 ((call (EvHostNew (Address (cfg sw)) priv) sw)\<lparr>host := Some h\<rparr>)
                     in case host_Addrs h of
                          [] \<Rightarrow> Some (Panics ''index out of range'')
                        | addr # _ \<Rightarrow>
                            (let fullAddr = addr @ ''/p2p/'' @ Pretty env (host_ID h);
                                 sw2 = log_Info ''new p2pnode @ p2p.Start host's multiaddr: %s''
                                         [LStr fullAddr] (sw1\<lparr>id_sw := Some fullAddr\<rparr>)
                             in case dht_New env (calls sw2) h of
                                  Some err \<Rightarrow>
                                    Some (Returns (Some err,
                                      log_Error ''new dht host failed @ p2p.Start, err: %v''
                                        [LErr (Some err)] (call (EvDhtNew h) sw2)))
                                | None \<Rightarrow>
                                    (case bootstrap env ((call (EvDhtNew h) sw2)\<lparr>kdht := True\<rparr>) of
                                       None \<Rightarrow> None
                                     | Some (Some err, sw3) \<Rightarrow>
                                         Some (Returns (Some err,
                                           log_Error ''bootstrap failed @ p2p.Start, err: %v''
                                             [LErr (Some err)] sw3))
                                     | Some (None, sw3) \<Rightarrow>
                                         Some (Returns (None, call (EvGo ''acceptRoutine'') sw3))))))))"

subsection \<open>Send and Broadcast\<close>

text \<open>
  \<^verbatim>\<open>peer.Decode\<close> of libp2p gives the zero identity together with its error; \<^verbatim>\<open>Send\<close>
  goes on with that identity. In the error of a failed send \<^verbatim>\<open>err\<close> is the one
  \<^verbatim>\<open>Find\<close> returned, which is nil there.
\<close>

definition zero_ID :: peer_ID where
  "zero_ID = []"

definition Decode :: "env \<Rightarrow> string \<Rightarrow> peer_ID \<times> error option" where
  "Decode env pr = (case peer_Decode env pr of Inl err \<Rightarrow> (zero_ID, Some err) | Inr i \<Rightarrow> (i, None))"

definition Send :: "env \<Rightarrow> string \<Rightarrow> int32 \<Rightarrow> bytes \<Rightarrow> Switch \<Rightarrow> error option \<times> Switch" where
  "Send env pr chID msgBytes sw =
     (case Decode env pr of
        (i, derr) \<Rightarrow>
          (let sw1 = (case derr of
                        Some err \<Rightarrow>
                          log_Error ''fail to convert string to id @ Send, err: %v, peer_id: %v, chID: %d, msgBytes: %X''
                            [LErr (Some err), LStr pr, LI32 chID, LBytes msgBytes] sw
                      | None \<Rightarrow> sw)
           in case Find (peers sw1) i of
                Inl err \<Rightarrow>
                  (Some err,
                   log_Error ''fail to find peer @ Send, err: %v, peer_id: %v, chID: %d, msgBytes: %X''
                     [LErr (Some err), LStr pr, LI32 chID, LBytes msgBytes] sw1)
              | Inr p \<Rightarrow>
                  (case Peer_Send env p chID msgBytes sw1 of
                     (False, sw2) \<Rightarrow>
                       (Some (Errorf ''fail to send @ Send, err: %v, peer_id: %v, chID: %d, msgBytes: %X''
                                [LErr None, LStr pr, LI32 chID, LBytes msgBytes]), sw2)
                   | (True, sw2) \<Rightarrow> (None, sw2))))"

text \<open>
  Modelled from the spec: \<^verbatim>\<open>PeerSet.Range\<close>, which the package defines in another
  file. The spec makes it the traversal that applies a function to every peer of the set, and makes its
  caller wait until all the applications are over. The peers are those of the set when
  the traversal starts.
\<close>

fun Range_each :: "(Peer \<Rightarrow> Switch \<Rightarrow> bool \<times> Switch) \<Rightarrow> Peer list \<Rightarrow> Switch \<Rightarrow> bool list \<times> Switch" where
  "Range_each f [] sw = ([], sw)"
| "Range_each f (p # ps) sw =
     (case f p sw of
        (b, sw1) \<Rightarrow> (case Range_each f ps sw1 of (bs, sw2) \<Rightarrow> (b # bs, sw2)))"

definition Range_peers :: "(Peer \<Rightarrow> Switch \<Rightarrow> bool \<times> Switch) \<Rightarrow> Switch \<Rightarrow> bool list \<times> Switch" where
  "Range_peers f sw = Range_each f (map snd (peers sw)) sw"

definition Broadcast :: "env \<Rightarrow> int32 \<Rightarrow> bytes \<Rightarrow> Switch \<Rightarrow> Switch" where
  "Broadcast env chID msgBytes sw =
     (case Range_peers (\<lambda>p. Peer_Send env p chID msgBytes) sw of
        (ch, sw1) \<Rightarrow>
          log_Info ''Broadcast completed @ Broadcast, chID: %d, msgBytes: %X''
            [LI32 chID, LBytes msgBytes] sw1)"

subsection \<open>A small network\<close>

text \<open>
  Four remote identities. \<open>QmB\<close> is healthy. \<open>QmC\<close> cannot be connected to. \<open>QmD\<close> can
  be connected to, but no stream to it can be opened. \<open>QmE\<close> gives a stream, but no peer
  can be built on it. A peer whose stream has handle 0 no longer validates, and sends to
  \<open>QmC\<close> fail. The routing table lists \<open>QmB\<close> once a connection to it has been made.
\<close>

definition addr_of :: "peer_ID \<Rightarrow> string" where
  "addr_of i = ''/ip4/10.0.0.2/tcp/3000/p2p/'' @ i"

definition ai_of :: "peer_ID \<Rightarrow> AddrInfo" where
  "ai_of i = \<lparr>ai_ID = i, ai_Addrs = [''/ip4/10.0.0.2/tcp/3000'']\<rparr>"

definition peer_of :: "peer_ID \<Rightarrow> nat \<Rightarrow> Peer" where
  "peer_of i n = \<lparr>info = ai_of i, stream = \<lparr>handle = n, RemotePeer = i\<rparr>\<rparr>"

definition env_ex :: env where
  "env_ex =
     \<lparr>base64_DecodeString = (\<lambda>s. if s = [] then Inl (LibError ''illegal base64 data'') else Inr [1, 2, 3]),
      UnmarshalPrivateKey = Inr,
      libp2p_New = (\<lambda>h a k. if a = [] then Inl (LibError ''failed to parse multiaddr'')
                             else Inr \<lparr>host_ID = ''QmSelf'', host_Addrs = [a]\<rparr>),
      dht_New = (\<lambda>h x. None),
      kdht_Bootstrap = (\<lambda>h. None),
      ListPeers = (\<lambda>h. if EvConnect (ai_of ''QmB'') \<in> set h then [''QmB''] else []),
      Pretty = (\<lambda>i. i),
      ipfsaddr_ParseString = (\<lambda>s. if s = [] then Inl (LibError ''invalid multiaddr'') else Inr s),
      AddrInfoFromP2pAddr =
        (\<lambda>m. if m = addr_of ''QmB'' then Inr (ai_of ''QmB'')
              else if m = addr_of ''QmC'' then Inr (ai_of ''QmC'')
              else if m = addr_of ''QmD'' then Inr (ai_of ''QmD'')
              else if m = addr_of ''QmE'' then Inr (ai_of ''QmE'')
              else Inl (LibError ''invalid p2p multiaddr'')),
      host_Connect = (\<lambda>h ai. if ai_ID ai = ''QmC'' then Some (LibError ''dial backoff'') else None),
      host_NewStream =
        (\<lambda>h i. if i = ''QmD'' then Inl (LibError ''protocol not supported'')
                else Inr \<lparr>handle = Suc (length h), RemotePeer = i\<rparr>),
      Peerstore_Addrs = (\<lambda>h i. [''/ip4/10.0.0.2/tcp/3000'']),
      peer_Decode = (\<lambda>s. if s = ''QmB'' \<or> s = ''QmC'' then Inr s
                          else Inl (LibError ''failed to parse peer ID'')),
      NewDefaultPeer = (\<lambda>h ai s. if ai_ID ai = ''QmE'' then Some (LibError ''handshake failed'') else None),
      peer_Validate = (\<lambda>h p. if handle (stream p) = 0 then Some (LibError ''stream reset'') else None),
      peer_Send = (\<lambda>h p c m. ai_ID (info p) \<noteq> ''QmC'')\<rparr>"

definition cfg_ex :: Config where
  "cfg_ex = \<lparr>Address = ''/ip4/10.0.0.1/tcp/3000'', BootStrap = [addr_of ''QmC'', addr_of ''QmB''],
             PrivateKey = ''CAAS'', PublicKey = ''CAAS'', TickerTimeSec = 0\<rparr>"

text \<open>A running switch that holds one healthy peer for \<open>QmB\<close>.\<close>

definition sw_ex :: Switch where
  "sw_ex = (NewSwitch cfg_ex)\<lparr>host := Some \<lparr>host_ID = ''QmSelf'', host_Addrs = [''/ip4/10.0.0.1/tcp/3000'']\<rparr>,
                               kdht := True, peers := [(''QmB'', peer_of ''QmB'' 7)]\<rparr>"

text \<open>The same network with a DHT whose routing table never gets a peer.\<close>

definition env_quiet :: env where
  "env_quiet = env_ex\<lparr>ListPeers := (\<lambda>h. [])\<rparr>"

section \<open>Properties\<close>

subsection \<open>What the bookkeeping touches\<close>

lemma call_fields [simp]:
  "calls (call e sw) = calls sw @ [e]" "peers (call e sw) = peers sw" "log (call e sw) = log sw"
  "cfg (call e sw) = cfg sw" "reactor (call e sw) = reactor sw"
  by (simp_all add: call_def)

lemma log_Error_fields [simp]:
  "calls (log_Error f a sw) = calls sw" "peers (log_Error f a sw) = peers sw"
  "log (log_Error f a sw) = log sw @ [(Error, f, a)]" "cfg (log_Error f a sw) = cfg sw"
  "reactor (log_Error f a sw) = reactor sw"
  by (simp_all add: log_Error_def)

lemma log_Info_fields [simp]:
  "calls (log_Info f a sw) = calls sw" "peers (log_Info f a sw) = peers sw"
  "log (log_Info f a sw) = log sw @ [(Info, f, a)]" "cfg (log_Info f a sw) = cfg sw"
  "reactor (log_Info f a sw) = reactor sw"
  by (simp_all add: log_Info_def)

lemmas ext_defs = Validate_def NewStream_def Peerstore_PeerInfo_def NewDefaultPeer_call_def
  Connect_def RoutingTable_ListPeers_def Peer_Send_def

lemmas ex_defs = env_ex_def sw_ex_def cfg_ex_def peer_of_def ai_of_def addr_of_def NewSwitch_def
  NewPeerSet_def defaultTickerTimeSec_def protocolPrefix_def Find_def Add_def

subsection \<open>The reactor table\<close>

lemma AddReactor_fresh:
  "reactor sw mo = None \<Longrightarrow>
     AddReactor mo f sw =
       (None, log_Info ''[module %s] registered'' [LStr mo] (sw\<lparr>reactor := (reactor sw)(mo \<mapsto> f)\<rparr>))"
  by (simp add: AddReactor_def)

lemma AddReactor_taken:
  "reactor sw mo = Some f \<Longrightarrow>
     AddReactor mo g sw = (Some (Errorf ''module has been registered before, %v'' [LStr mo]), sw)"
  by (simp add: AddReactor_def)

text \<open>
  C6. A first \<^verbatim>\<open>AddReactor\<close> for a module returns nil and records the reactor; a second
  one for the same module, with any reactor, returns an error and gives back the switch
  as the first call left it, so the module is still bound to the first reactor.
\<close>

theorem AddReactor_twice:
  assumes "reactor sw mo = None"
    and "AddReactor mo f sw = (r1, sw1)"
    and "AddReactor mo g sw1 = (r2, sw2)"
  shows "r1 = None \<and> reactor sw1 mo = Some f \<and> r2 \<noteq> None \<and> sw2 = sw1 \<and> reactor sw2 mo = Some f"
proof -
  from assms(1,2) have first: "r1 = None" "reactor sw1 mo = Some f"
    by (auto simp: AddReactor_fresh log_Info_def)
  from first(2) assms(3) have "r2 \<noteq> None" "sw2 = sw1"
    by (auto simp: AddReactor_taken)
  with first show ?thesis by simp
qed

theorem AddReactor_twice_witness:
  "reactor (NewSwitch cfg_ex) ''consensus'' = None
   \<and> fst (AddReactor ''consensus'' 1 (NewSwitch cfg_ex)) = None
   \<and> fst (AddReactor ''consensus'' 2 (snd (AddReactor ''consensus'' 1 (NewSwitch cfg_ex)))) \<noteq> None
   \<and> reactor (snd (AddReactor ''consensus'' 2 (snd (AddReactor ''consensus'' 1 (NewSwitch cfg_ex)))))
        ''consensus'' = Some 1"
proof -
  have h: "reactor (NewSwitch cfg_ex) ''consensus'' = None"
    by (simp add: NewSwitch_def Let_def log_Info_def NewPeerSet_def)
  show ?thesis
    using h AddReactor_twice [OF h surjective_pairing surjective_pairing, of 1 2]
    by simp
qed

subsection \<open>Peer admission\<close>

lemma dialPeersAsync_usable:
  "Find (peers sw) i = Inr old \<Longrightarrow> peer_Validate env (calls sw) old = None \<Longrightarrow>
     dialPeersAsync env i sw = (None, call (EvValidate old) sw)"
  by (simp add: dialPeersAsync_def Validate_def)

lemma handleStream_usable:
  "Find (peers sw) (RemotePeer s) = Inr old \<Longrightarrow> peer_Validate env (calls sw) old = None \<Longrightarrow>
     handleStream env s sw =
       log_Error ''use an old one @ handleStream, peer_id: %s'' [LStr (RemotePeer s)]
         (call (EvValidate old) sw)"
  by (simp add: handleStream_def Validate_def)

lemma Find_Add: "Find (Add ps p) j = (if j = ai_ID (info p) then Inr p else Find ps j)"
  by (simp add: Find_def Add_def update_conv')

lemma distinct_Add: "distinct (map fst ps) \<Longrightarrow> distinct (map fst (Add ps p))"
  by (simp add: Add_def distinct_update)

lemma dialPeersAsync_peers:
  "peers (snd (dialPeersAsync env i sw)) = peers sw \<or>
   (\<exists>a st. peers (snd (dialPeersAsync env i sw)) =
              Add (peers sw) \<lparr>info = \<lparr>ai_ID = i, ai_Addrs = a\<rparr>, stream = st\<rparr>
        \<and> \<not> (\<exists>old. Find (peers sw) i = Inr old \<and> peer_Validate env (calls sw) old = None))"
  by (auto simp: dialPeersAsync_def ext_defs Let_def split: sum.splits option.splits prod.splits)

lemma handleStream_peers:
  "peers (handleStream env s sw) = peers sw \<or>
   (\<exists>a st. peers (handleStream env s sw) =
              Add (peers sw) \<lparr>info = \<lparr>ai_ID = RemotePeer s, ai_Addrs = a\<rparr>, stream = st\<rparr>
        \<and> \<not> (\<exists>old. Find (peers sw) (RemotePeer s) = Inr old \<and> peer_Validate env (calls sw) old = None))"
  by (auto simp: handleStream_def ext_defs Let_def split: sum.splits option.splits prod.splits)

lemma admit_peers:
  "peers (admit env a sw) = peers sw \<or>
   (\<exists>ad st. peers (admit env a sw) =
              Add (peers sw) \<lparr>info = \<lparr>ai_ID = target a, ai_Addrs = ad\<rparr>, stream = st\<rparr>
        \<and> \<not> (\<exists>old. Find (peers sw) (target a) = Inr old \<and> peer_Validate env (calls sw) old = None))"
proof (cases a)
  case (Outbound i)
  then show ?thesis using dialPeersAsync_peers [of env i sw] by simp
next
  case (Inbound s)
  then show ?thesis using handleStream_peers [of env s sw] by simp
qed

lemma admit_distinct: "distinct (map fst (peers sw)) \<Longrightarrow> distinct (map fst (peers (admit env a sw)))"
  using admit_peers [of env a sw] by (auto simp: distinct_Add)

lemma admit_healthy:
  assumes "\<forall>h. peer_Validate env h old = None" "Find (peers sw) i = Inr old"
  shows "Find (peers (admit env a sw)) i = Inr old"
  using admit_peers [of env a sw] assms by (auto simp: Find_Add)

lemma admit_all_healthy:
  "\<forall>h. peer_Validate env h old = None \<Longrightarrow> Find (peers sw) i = Inr old \<Longrightarrow>
     Find (peers (admit_all env as sw)) i = Inr old"
  by (induction as arbitrary: sw) (auto simp: admit_healthy)

lemma admit_all_distinct:
  "distinct (map fst (peers sw)) \<Longrightarrow> distinct (map fst (peers (admit_all env as sw)))"
  by (induction as arbitrary: sw) (auto simp: admit_distinct)

lemma admit_usable:
  assumes "Find (peers sw) (target a) = Inr old" "peer_Validate env (calls sw) old = None"
  shows "peers (admit env a sw) = peers sw \<and> calls (admit env a sw) = calls sw @ [EvValidate old]"
  using assms by (cases a) (simp_all add: dialPeersAsync_usable handleStream_usable)

text \<open>
  C1. Both admission paths look the identity up before they build a peer. An attempt
  that finds an entry which validates leaves the peer set as it is and builds nothing:
  the only call it makes is the validation. Hence, over any sequence of outbound and
  inbound attempts, a peer set with one entry per identity keeps one entry per identity,
  and the entry of a peer that goes on validating is never replaced.
\<close>

theorem admission_first_valid_wins:
  assumes "distinct (map fst (peers sw))"
  shows "distinct (map fst (peers (admit_all env as sw)))
    \<and> (\<forall>a old. Find (peers sw) (target a) = Inr old \<and> peer_Validate env (calls sw) old = None \<longrightarrow>
          peers (admit env a sw) = peers sw \<and> calls (admit env a sw) = calls sw @ [EvValidate old])
    \<and> (\<forall>i old. (\<forall>h. peer_Validate env h old = None) \<and> Find (peers sw) i = Inr old \<longrightarrow>
          Find (peers (admit_all env as sw)) i = Inr old)"
  using assms by (simp add: admit_all_distinct admit_usable admit_all_healthy)

theorem admission_first_valid_wins_witness:
  "distinct (map fst (peers sw_ex))
   \<and> distinct (map fst (peers (admit_all env_ex
         [Inbound \<lparr>handle = 9, RemotePeer = ''QmB''\<rparr>, Outbound ''QmC'', Outbound ''QmB''] sw_ex)))
   \<and> peers (admit env_ex (Inbound \<lparr>handle = 9, RemotePeer = ''QmB''\<rparr>) sw_ex) = peers sw_ex
   \<and> Find (peers (admit_all env_ex
         [Inbound \<lparr>handle = 9, RemotePeer = ''QmB''\<rparr>, Outbound ''QmC'', Outbound ''QmB''] sw_ex)) ''QmB''
       = Inr (peer_of ''QmB'' 7)"
proof -
  have d: "distinct (map fst (peers sw_ex))"
    by (simp add: ex_defs)
  have f: "Find (peers sw_ex) ''QmB'' = Inr (peer_of ''QmB'' 7)"
    by (simp add: ex_defs)
  have v: "\<forall>h. peer_Validate env_ex h (peer_of ''QmB'' 7) = None"
    by (simp add: ex_defs)
  from f v have u: "Find (peers sw_ex) (target (Inbound \<lparr>handle = 9, RemotePeer = ''QmB''\<rparr>))
      = Inr (peer_of ''QmB'' 7) \<and> peer_Validate env_ex (calls sw_ex) (peer_of ''QmB'' 7) = None"
    by simp
  show ?thesis
    using d f v u
      admission_first_valid_wins [OF d, of env_ex
        "[Inbound \<lparr>handle = 9, RemotePeer = ''QmB''\<rparr>, Outbound ''QmC'', Outbound ''QmB'']"]
    by blast
qed

text \<open>
  C7, as the code has it. An attempt that finds an entry which validates returns no
  error and leaves the peer set alone on both paths. The outbound path writes nothing
  to the log. The inbound path writes one entry, at level Error.
\<close>

theorem duplicate_attempt_discarded:
  assumes "Find (peers sw) i = Inr old" and "peer_Validate env (calls sw) old = None"
  shows "dialPeersAsync env i sw = (None, call (EvValidate old) sw)
    \<and> log (snd (dialPeersAsync env i sw)) = log sw
    \<and> peers (snd (dialPeersAsync env i sw)) = peers sw
    \<and> (\<forall>s. RemotePeer s = i \<longrightarrow>
          peers (handleStream env s sw) = peers sw
          \<and> calls (handleStream env s sw) = calls sw @ [EvValidate old]
          \<and> log (handleStream env s sw) =
              log sw @ [(Error, ''use an old one @ handleStream, peer_id: %s'', [LStr i])])"
  using assms by (auto simp: dialPeersAsync_usable handleStream_usable)

theorem duplicate_attempt_discarded_witness:
  "Find (peers sw_ex) ''QmB'' = Inr (peer_of ''QmB'' 7)
   \<and> peer_Validate env_ex (calls sw_ex) (peer_of ''QmB'' 7) = None
   \<and> fst (dialPeersAsync env_ex ''QmB'' sw_ex) = None
   \<and> log (snd (dialPeersAsync env_ex ''QmB'' sw_ex)) = log sw_ex
   \<and> peers (handleStream env_ex \<lparr>handle = 9, RemotePeer = ''QmB''\<rparr> sw_ex) = peers sw_ex"
proof -
  have f: "Find (peers sw_ex) ''QmB'' = Inr (peer_of ''QmB'' 7)"
    by (simp add: ex_defs)
  have v: "peer_Validate env_ex (calls sw_ex) (peer_of ''QmB'' 7) = None"
    by (simp add: ex_defs)
  show ?thesis
    using f v duplicate_attempt_discarded [OF f v] by simp
qed

text \<open>
  C7 as stated fails on the inbound path, which is not silent: with the healthy peer
  of \<open>QmB\<close> in the set, a second stream from \<open>QmB\<close> adds an Error entry to the log.
\<close>

theorem handleStream_duplicate_logs_error:
  "Find (peers sw_ex) ''QmB'' = Inr (peer_of ''QmB'' 7)
   \<and> peer_Validate env_ex (calls sw_ex) (peer_of ''QmB'' 7) = None
   \<and> log (handleStream env_ex \<lparr>handle = 9, RemotePeer = ''QmB''\<rparr> sw_ex) =
       log sw_ex @ [(Error, ''use an old one @ handleStream, peer_id: %s'', [LStr ''QmB''])]
   \<and> log (handleStream env_ex \<lparr>handle = 9, RemotePeer = ''QmB''\<rparr> sw_ex) \<noteq> log sw_ex"
  by (simp add: handleStream_def ext_defs ex_defs Let_def)

text \<open>
  C8. On the outbound path, when no usable peer is in the set, the stream opens and the
  peer cannot be built on it, \<^verbatim>\<open>dialPeersAsync\<close> returns the construction error and
  leaves the peer set as it was; its last two calls close the stream and remove the
  identity from the routing table, and it logs the failure.
\<close>

theorem dial_construction_failure:
  assumes nu: "\<not> (\<exists>old. Find (peers sw) i = Inr old \<and> peer_Validate env (calls sw) old = None)"
    and h0: "h0 = calls sw @ (case Find (peers sw) i of Inl _ \<Rightarrow> [] | Inr old \<Rightarrow> [EvValidate old])"
    and ns: "host_NewStream env h0 i = Inr s"
    and raw: "raw = \<lparr>ai_ID = i, ai_Addrs = Peerstore_Addrs env (h0 @ [EvNewStream i protocolPrefix]) i\<rparr>"
    and np: "NewDefaultPeer env (h0 @ [EvNewStream i protocolPrefix, EvPeerInfo i]) raw s = Some e"
  shows "fst (dialPeersAsync env i sw) = Some e
    \<and> peers (snd (dialPeersAsync env i sw)) = peers sw
    \<and> calls (snd (dialPeersAsync env i sw)) =
        h0 @ [EvNewStream i protocolPrefix, EvPeerInfo i, EvNewDefaultPeer raw s,
              EvStreamClose s, EvRemovePeer i]
    \<and> log (snd (dialPeersAsync env i sw)) =
        log sw @ [(Error, ''new remote peer fail @ DialPeersAsync, peer_id: %s, err: %v'',
                   [LStr (Pretty env i), LErr (Some e)])]"
  using assms
  by (auto simp: dialPeersAsync_def ext_defs Let_def split: sum.splits option.splits prod.splits)

theorem dial_construction_failure_witness:
  "fst (dialPeersAsync env_ex ''QmE'' sw_ex) = Some (LibError ''handshake failed'')
   \<and> peers (snd (dialPeersAsync env_ex ''QmE'' sw_ex)) = peers sw_ex
   \<and> calls (snd (dialPeersAsync env_ex ''QmE'' sw_ex)) =
       [EvNewStream ''QmE'' protocolPrefix, EvPeerInfo ''QmE'',
        EvNewDefaultPeer (ai_of ''QmE'') \<lparr>handle = 1, RemotePeer = ''QmE''\<rparr>,
        EvStreamClose \<lparr>handle = 1, RemotePeer = ''QmE''\<rparr>, EvRemovePeer ''QmE'']"
proof -
  have nu: "\<not> (\<exists>old. Find (peers sw_ex) ''QmE'' = Inr old
              \<and> peer_Validate env_ex (calls sw_ex) old = None)"
    by (simp add: ex_defs Let_def)
  have h0: "[] = calls sw_ex @ (case Find (peers sw_ex) ''QmE'' of Inl _ \<Rightarrow> [] | Inr old \<Rightarrow> [EvValidate old])"
    by (simp add: ex_defs Let_def)
  have ns: "host_NewStream env_ex [] ''QmE'' = Inr \<lparr>handle = 1, RemotePeer = ''QmE''\<rparr>"
    by (simp add: ex_defs)
  have raw: "ai_of ''QmE'' =
      \<lparr>ai_ID = ''QmE'', ai_Addrs = Peerstore_Addrs env_ex ([] @ [EvNewStream ''QmE'' protocolPrefix]) ''QmE''\<rparr>"
    by (simp add: ex_defs)
  have np: "NewDefaultPeer env_ex ([] @ [EvNewStream ''QmE'' protocolPrefix, EvPeerInfo ''QmE''])
      (ai_of ''QmE'') \<lparr>handle = 1, RemotePeer = ''QmE''\<rparr> = Some (LibError ''handshake failed'')"
    by (simp add: ex_defs)
  show ?thesis
    using dial_construction_failure [OF nu h0 ns raw np] by simp
qed

subsection \<open>connect\<close>

lemma dial_error_no_peer:
  "fst (dialPeersAsync env i sw) = Some e \<Longrightarrow>
     peers (snd (dialPeersAsync env i sw)) = peers sw
     \<and> (\<forall>p. EvPeerStart p \<notin> set (drop (length (calls sw)) (calls (snd (dialPeersAsync env i sw)))))"
  by (auto simp: dialPeersAsync_def ext_defs Let_def split: sum.splits option.splits prod.splits if_splits)

lemma connect_after_Connect:
  assumes "ipfsaddr_ParseString env m = Inr a" "AddrInfoFromP2pAddr env a = Inr ai"
    "host_Connect env (calls sw) ai = None"
  shows "fst (connect env m sw) = None"
    and "dialPeersAsync env (ai_ID ai) (call (EvConnect ai) sw) = (Some e, s) \<Longrightarrow>
         connect env m sw = (None, log_Error ''dial fail @ p2p.acceptRoutine peer_id: %s, err: %v''
                            [LStr (Pretty env (ai_ID ai)), LErr (Some e)] s)"
    and "bootstrap_pass env [m] sw =
         log_Info ''build stream success @ bootstrap remote_peer: %s'' [LStr m] (snd (connect env m sw))"
  using assms
  by (auto simp: connect_def Connect_def split: sum.splits option.splits prod.splits)

text \<open>
  C10. Once the address parses, the address info is extracted and the host connects,
  \<^verbatim>\<open>connect\<close> returns nil. A failure of the dial that follows is only logged: the peer
  set is as before and no peer was started, yet \<^verbatim>\<open>bootstrap\<close> logs its
  "build stream success" for that address.
\<close>

theorem connect_hides_dial_failure:
  assumes "ipfsaddr_ParseString env m = Inr a"
    and "AddrInfoFromP2pAddr env a = Inr ai"
    and "host_Connect env (calls sw) ai = None"
  shows "fst (connect env m sw) = None
    \<and> bootstrap_pass env [m] sw =
        log_Info ''build stream success @ bootstrap remote_peer: %s'' [LStr m] (snd (connect env m sw))
    \<and> (\<forall>e s. dialPeersAsync env (ai_ID ai) (call (EvConnect ai) sw) = (Some e, s) \<longrightarrow>
          connect env m sw =
            (None, log_Error ''dial fail @ p2p.acceptRoutine peer_id: %s, err: %v''
                     [LStr (Pretty env (ai_ID ai)), LErr (Some e)] s)
          \<and> peers (snd (connect env m sw)) = peers sw
          \<and> (\<forall>p. EvPeerStart p \<notin> set (calls (snd (connect env m sw))) - set (calls sw)))"
proof -
  have "peers (snd (connect env m sw)) = peers sw
        \<and> (\<forall>p. EvPeerStart p \<notin> set (calls (snd (connect env m sw))) - set (calls sw))"
    if d: "dialPeersAsync env (ai_ID ai) (call (EvConnect ai) sw) = (Some e, s)" for e s
  proof -
    from d have "fst (dialPeersAsync env (ai_ID ai) (call (EvConnect ai) sw)) = Some e" by simp
    from dial_error_no_peer [OF this] d
    have p: "peers s = peers sw"
      and n: "\<forall>p. EvPeerStart p \<notin> set (drop (Suc (length (calls sw))) (calls s))"
      by simp_all
    have c: "connect env m sw =
        (None, log_Error ''dial fail @ p2p.acceptRoutine peer_id: %s, err: %v''
                 [LStr (Pretty env (ai_ID ai)), LErr (Some e)] s)"
      using connect_after_Connect(2) [OF assms d] .
    have "set (calls s) \<subseteq> set (take (Suc (length (calls sw))) (calls s))
            \<union> set (drop (Suc (length (calls sw))) (calls s))"
      by (metis append_take_drop_id set_append subset_refl)
    moreover have "take (Suc (length (calls sw))) (calls s) = calls sw @ [EvConnect ai]"
      using d
      by (auto simp: dialPeersAsync_def ext_defs Let_def
               split: sum.splits option.splits prod.splits if_splits)
    ultimately show ?thesis using p n c by auto
  qed
  then show ?thesis
    using connect_after_Connect [OF assms] by blast
qed

theorem connect_hides_dial_failure_witness:
  "fst (dialPeersAsync env_ex ''QmD'' (call (EvConnect (ai_of ''QmD'')) sw_ex))
     = Some (LibError ''protocol not supported'')
   \<and> fst (connect env_ex (addr_of ''QmD'') sw_ex) = None
   \<and> peers (snd (connect env_ex (addr_of ''QmD'') sw_ex)) = peers sw_ex
   \<and> last (log (bootstrap_pass env_ex [addr_of ''QmD''] sw_ex)) =
       (Info, ''build stream success @ bootstrap remote_peer: %s'', [LStr (addr_of ''QmD'')])"
proof -
  have a: "ipfsaddr_ParseString env_ex (addr_of ''QmD'') = Inr (addr_of ''QmD'')"
    by (simp add: ex_defs)
  have b: "AddrInfoFromP2pAddr env_ex (addr_of ''QmD'') = Inr (ai_of ''QmD'')"
    by (simp add: ex_defs)
  have c: "host_Connect env_ex (calls sw_ex) (ai_of ''QmD'') = None"
    by (simp add: ex_defs)
  have d: "dialPeersAsync env_ex (ai_ID (ai_of ''QmD'')) (call (EvConnect (ai_of ''QmD'')) sw_ex) =
      (Some (LibError ''protocol not supported''),
       snd (dialPeersAsync env_ex (ai_ID (ai_of ''QmD'')) (call (EvConnect (ai_of ''QmD'')) sw_ex)))"
    by (simp add: dialPeersAsync_def ext_defs ex_defs Let_def)
  have e: "fst (dialPeersAsync env_ex ''QmD'' (call (EvConnect (ai_of ''QmD'')) sw_ex))
             = Some (LibError ''protocol not supported'')"
    by (simp add: dialPeersAsync_def ext_defs ex_defs Let_def)
  note t = connect_hides_dial_failure [OF a b c]
  from t have n: "fst (connect env_ex (addr_of ''QmD'') sw_ex) = None"
    by blast
  from t have bp: "bootstrap_pass env_ex [addr_of ''QmD''] sw_ex =
      log_Info ''build stream success @ bootstrap remote_peer: %s'' [LStr (addr_of ''QmD'')]
        (snd (connect env_ex (addr_of ''QmD'') sw_ex))"
    by blast
  from t d have pe: "peers (snd (connect env_ex (addr_of ''QmD'') sw_ex)) = peers sw_ex"
    by blast
  show ?thesis
    using e n bp pe by (simp del: bootstrap_pass.simps)
qed

subsection \<open>Send\<close>

lemma Send_absent:
  "map_of (peers sw) (fst (Decode env pr)) = None \<Longrightarrow>
     fst (Send env pr chID msgBytes sw) = Some ErrPeerNotFound
     \<and> calls (snd (Send env pr chID msgBytes sw)) = calls sw
     \<and> peers (snd (Send env pr chID msgBytes sw)) = peers sw"
  by (auto simp: Send_def Find_def Let_def split: prod.splits option.splits)

lemma Send_found:
  "map_of (peers sw) (fst (Decode env pr)) = Some p \<Longrightarrow>
     fst (Send env pr chID msgBytes sw) =
       (if peer_Send env (calls sw) p chID msgBytes then None
        else Some (Errorf ''fail to send @ Send, err: %v, peer_id: %v, chID: %d, msgBytes: %X''
                     [LErr None, LStr pr, LI32 chID, LBytes msgBytes]))
     \<and> calls (snd (Send env pr chID msgBytes sw)) = calls sw @ [EvPeerSend p chID msgBytes]
     \<and> peers (snd (Send env pr chID msgBytes sw)) = peers sw"
  by (auto simp: Send_def Find_def Let_def Peer_Send_def split: prod.splits option.splits bool.splits)

text \<open>
  C4. \<^verbatim>\<open>Send\<close> returns an error exactly when the identity it resolved has no entry in
  the peer set, or when the peer found reports that its send failed. With no entry the
  error is "peer not found" and no peer is called. With an entry, the one call made is
  the send of the payload, under the channel, on that peer.
\<close>

theorem Send_error_iff:
  "(fst (Send env pr chID msgBytes sw) \<noteq> None \<longleftrightarrow>
      map_of (peers sw) (fst (Decode env pr)) = None
      \<or> (\<exists>p. map_of (peers sw) (fst (Decode env pr)) = Some p
              \<and> \<not> peer_Send env (calls sw) p chID msgBytes))
   \<and> fst (Send env pr chID msgBytes sw) =
       (case map_of (peers sw) (fst (Decode env pr)) of
          None \<Rightarrow> Some ErrPeerNotFound
        | Some p \<Rightarrow>
            if peer_Send env (calls sw) p chID msgBytes then None
            else Some (Errorf ''fail to send @ Send, err: %v, peer_id: %v, chID: %d, msgBytes: %X''
                         [LErr None, LStr pr, LI32 chID, LBytes msgBytes]))
   \<and> calls (snd (Send env pr chID msgBytes sw)) =
       calls sw @ (case map_of (peers sw) (fst (Decode env pr)) of
                     None \<Rightarrow> []
                   | Some p \<Rightarrow> [EvPeerSend p chID msgBytes])
   \<and> peers (snd (Send env pr chID msgBytes sw)) = peers sw"
proof (cases "map_of (peers sw) (fst (Decode env pr))")
  case None
  from Send_absent [OF None, of chID msgBytes] None show ?thesis by simp
next
  case (Some p)
  from Send_found [OF Some, of chID msgBytes] Some show ?thesis by simp
qed

theorem Send_error_iff_witness:
  "fst (Send env_ex ''QmC'' 1 [1, 2] sw_ex) = Some ErrPeerNotFound
   \<and> calls (snd (Send env_ex ''QmC'' 1 [1, 2] sw_ex)) = calls sw_ex
   \<and> fst (Send env_ex ''QmB'' 1 [1, 2] sw_ex) = None
   \<and> calls (snd (Send env_ex ''QmB'' 1 [1, 2] sw_ex)) =
       calls sw_ex @ [EvPeerSend (peer_of ''QmB'' 7) 1 [1, 2]]"
proof -
  have c: "map_of (peers sw_ex) (fst (Decode env_ex ''QmC'')) = None"
    by (simp add: ex_defs Decode_def Let_def)
  have b: "map_of (peers sw_ex) (fst (Decode env_ex ''QmB'')) = Some (peer_of ''QmB'' 7)"
    by (simp add: ex_defs Decode_def Let_def)
  have s: "peer_Send env_ex (calls sw_ex) (peer_of ''QmB'' 7) 1 [1, 2]"
    by (simp add: ex_defs)
  show ?thesis
    using Send_error_iff [of env_ex "''QmC''" 1 "[1, 2]" sw_ex]
      Send_error_iff [of env_ex "''QmB''" 1 "[1, 2]" sw_ex] c b s
    by simp
qed

text \<open>
  C9. When the identity string does not decode, \<^verbatim>\<open>Send\<close> logs the decode error and
  looks the zero identity up. What it returns is then nil, "peer not found", or the
  send failure, whose text carries a nil error: the decode error is in the log only.
\<close>

theorem Send_undecodable:
  assumes "peer_Decode env pr = Inl e"
  shows "Send env pr chID msgBytes sw =
     (let sw1 = log_Error ''fail to convert string to id @ Send, err: %v, peer_id: %v, chID: %d, msgBytes: %X''
                  [LErr (Some e), LStr pr, LI32 chID, LBytes msgBytes] sw
      in case map_of (peers sw) zero_ID of
           None \<Rightarrow>
             (Some ErrPeerNotFound,
              log_Error ''fail to find peer @ Send, err: %v, peer_id: %v, chID: %d, msgBytes: %X''
                [LErr (Some ErrPeerNotFound), LStr pr, LI32 chID, LBytes msgBytes] sw1)
         | Some p \<Rightarrow>
             (if peer_Send env (calls sw) p chID msgBytes then None
              else Some (Errorf ''fail to send @ Send, err: %v, peer_id: %v, chID: %d, msgBytes: %X''
                           [LErr None, LStr pr, LI32 chID, LBytes msgBytes]),
              call (EvPeerSend p chID msgBytes) sw1))
   \<and> fst (Send env pr chID msgBytes sw) \<in>
       {None, Some ErrPeerNotFound,
        Some (Errorf ''fail to send @ Send, err: %v, peer_id: %v, chID: %d, msgBytes: %X''
                [LErr None, LStr pr, LI32 chID, LBytes msgBytes])}"
  using assms
  by (auto simp: Send_def Decode_def Find_def Let_def Peer_Send_def split: option.splits bool.splits)

theorem Send_undecodable_witness:
  "peer_Decode env_ex ''not a peer id'' = Inl (LibError ''failed to parse peer ID'')
   \<and> fst (Send env_ex ''not a peer id'' 1 [1, 2] sw_ex) = Some ErrPeerNotFound
   \<and> log (snd (Send env_ex ''not a peer id'' 1 [1, 2] sw_ex)) =
       log sw_ex
       @ [(Error, ''fail to convert string to id @ Send, err: %v, peer_id: %v, chID: %d, msgBytes: %X'',
           [LErr (Some (LibError ''failed to parse peer ID'')), LStr ''not a peer id'', LI32 1, LBytes [1, 2]]),
          (Error, ''fail to find peer @ Send, err: %v, peer_id: %v, chID: %d, msgBytes: %X'',
           [LErr (Some ErrPeerNotFound), LStr ''not a peer id'', LI32 1, LBytes [1, 2]])]"
proof -
  have d: "peer_Decode env_ex ''not a peer id'' = Inl (LibError ''failed to parse peer ID'')"
    by (simp add: ex_defs)
  have z: "map_of (peers sw_ex) zero_ID = None"
    by (simp add: ex_defs zero_ID_def Let_def)
  show ?thesis
    using d z Send_undecodable [OF d, of 1 "[1, 2]" sw_ex] by (simp add: Let_def)
qed

subsection \<open>Broadcast\<close>

lemma Range_each_Send:
  "calls (snd (Range_each (\<lambda>p. Peer_Send env p chID msgBytes) ps sw)) =
     calls sw @ map (\<lambda>p. EvPeerSend p chID msgBytes) ps
   \<and> peers (snd (Range_each (\<lambda>p. Peer_Send env p chID msgBytes) ps sw)) = peers sw
   \<and> log (snd (Range_each (\<lambda>p. Peer_Send env p chID msgBytes) ps sw)) = log sw
   \<and> length (fst (Range_each (\<lambda>p. Peer_Send env p chID msgBytes) ps sw)) = length ps"
  by (induction ps arbitrary: sw) (simp_all add: Peer_Send_def case_prod_unfold)

text \<open>
  C3. When \<^verbatim>\<open>Broadcast\<close> returns, the calls it has made are one send of the payload,
  under the channel, on each peer that was in the set when it started, whatever each
  send answered, and nothing else; the set is as before. With no peer it makes no call
  and only writes its completion line. \<^verbatim>\<open>Broadcast\<close> has no result, so no error.
\<close>

theorem Broadcast_attempts_every_peer:
  "calls (Broadcast env chID msgBytes sw) =
     calls sw @ map (\<lambda>p. EvPeerSend p chID msgBytes) (map snd (peers sw))
   \<and> peers (Broadcast env chID msgBytes sw) = peers sw
   \<and> log (Broadcast env chID msgBytes sw) =
       log sw @ [(Info, ''Broadcast completed @ Broadcast, chID: %d, msgBytes: %X'',
                  [LI32 chID, LBytes msgBytes])]
   \<and> (peers sw = [] \<longrightarrow>
        Broadcast env chID msgBytes sw =
          log_Info ''Broadcast completed @ Broadcast, chID: %d, msgBytes: %X''
            [LI32 chID, LBytes msgBytes] sw)"
  using Range_each_Send [of env chID msgBytes "map snd (peers sw)" sw]
  by (simp add: Broadcast_def Range_peers_def case_prod_unfold)

theorem Broadcast_attempts_every_peer_witness:
  "peers (NewSwitch cfg_ex) = []
   \<and> calls (Broadcast env_ex 1 [120] (NewSwitch cfg_ex)) = []
   \<and> calls (Broadcast env_ex 1 [120] sw_ex) = [EvPeerSend (peer_of ''QmB'' 7) 1 [120]]"
proof -
  have e: "peers (NewSwitch cfg_ex) = []"
    by (simp add: ex_defs Let_def)
  have c: "calls (NewSwitch cfg_ex) = []" "calls sw_ex = []"
    "peers sw_ex = [(''QmB'', peer_of ''QmB'' 7)]"
    by (simp_all add: ex_defs Let_def)
  show ?thesis
    using e c Broadcast_attempts_every_peer [of env_ex 1 "[120]" "NewSwitch cfg_ex"]
      Broadcast_attempts_every_peer [of env_ex 1 "[120]" sw_ex]
    by simp
qed

subsection \<open>bootstrap\<close>

lemma bootstrap_retry_unfold:
  "bootstrap_retry env sw =
     (if ListPeers env (calls (bootstrap_pass env (BootStrap (cfg sw)) sw)) = []
      then bootstrap_retry env (call EvListPeers (bootstrap_pass env (BootStrap (cfg sw)) sw))
      else Some (call EvListPeers (bootstrap_pass env (BootStrap (cfg sw)) sw)))"
  by (subst bootstrap_retry.simps) (simp add: RoutingTable_ListPeers_def)

text \<open>A loop that left has seen a routing table with a peer at its last look.\<close>

lemma bootstrap_retry_returns_nonempty:
  assumes "bootstrap_retry env sw = Some sw'"
  shows "\<exists>s. sw' = call EvListPeers s \<and> ListPeers env (calls s) \<noteq> []"
proof (rule bootstrap_retry.raw_induct
    [where P = "\<lambda>env sw sw'. \<exists>s. sw' = call EvListPeers s \<and> ListPeers env (calls s) \<noteq> []",
     OF _ assms])
  fix retry :: "env \<Rightarrow> Switch \<Rightarrow> Switch option" and env sw y
  assume IH: "\<And>e s y. retry e s = Some y \<Longrightarrow>
                 \<exists>t. y = call EvListPeers t \<and> ListPeers e (calls t) \<noteq> []"
    and step: "(case RoutingTable_ListPeers env (bootstrap_pass env (BootStrap (cfg sw)) sw) of
                 (ps, sw1) \<Rightarrow> if length ps = 0 then retry env sw1 else Some sw1) = Some y"
  show "\<exists>s. y = call EvListPeers s \<and> ListPeers env (calls s) \<noteq> []"
  proof (cases "ListPeers env (calls (bootstrap_pass env (BootStrap (cfg sw)) sw)) = []")
    case True
    with step have "retry env (call EvListPeers (bootstrap_pass env (BootStrap (cfg sw)) sw)) = Some y"
      by (simp add: RoutingTable_ListPeers_def)
    then show ?thesis by (rule IH)
  next
    case False
    with step have "y = call EvListPeers (bootstrap_pass env (BootStrap (cfg sw)) sw)"
      by (simp add: RoutingTable_ListPeers_def)
    with False show ?thesis by blast
  qed
qed

text \<open>The calls already made stay: every function only adds to them.\<close>

lemma dialPeersAsync_calls_grow: "\<exists>t. calls (snd (dialPeersAsync env i sw)) = calls sw @ t"
  by (auto simp: dialPeersAsync_def ext_defs Let_def split: sum.splits option.splits prod.splits)

lemma connect_calls_grow: "\<exists>t. calls (snd (connect env m sw)) = calls sw @ t"
proof -
  have "\<exists>t. calls (snd (dialPeersAsync env i (call e sw))) = calls sw @ t" for i e
    using dialPeersAsync_calls_grow [of env i "call e sw"] by auto
  then show ?thesis
    by (auto simp: connect_def Connect_def split: sum.splits option.splits prod.splits)
      (metis snd_conv)+
qed

lemma bootstrap_pass_calls_grow: "\<exists>t. calls (bootstrap_pass env ms sw) = calls sw @ t"
proof (induction ms arbitrary: sw)
  case Nil
  show ?case by simp
next
  case (Cons m ms)
  obtain r sw1 where c: "connect env m sw = (r, sw1)" by (cases "connect env m sw")
  from connect_calls_grow [of env m sw] c obtain t where t: "calls sw1 = calls sw @ t" by auto
  show ?case
  proof (cases r)
    case None
    from Cons.IH [of "log_Info ''build stream success @ bootstrap remote_peer: %s'' [LStr m] sw1"]
    obtain u where "calls (bootstrap_pass env ms
        (log_Info ''build stream success @ bootstrap remote_peer: %s'' [LStr m] sw1)) = calls sw1 @ u"
      by auto
    with c None t show ?thesis by simp
  next
    case (Some e)
    from Cons.IH [of sw1] obtain u where "calls (bootstrap_pass env ms sw1) = calls sw1 @ u" by auto
    with c Some t show ?thesis by simp
  qed
qed

text \<open>
  If from now on, whatever calls follow, the routing table lists no peer, the loop
  cannot have left.
\<close>

lemma bootstrap_retry_table_stays_empty:
  assumes "bootstrap_retry env sw = Some sw'"
  shows "\<not> (\<forall>h. ListPeers env (calls sw @ h) = [])"
proof (rule bootstrap_retry.raw_induct
    [where P = "\<lambda>env sw sw'. \<not> (\<forall>h. ListPeers env (calls sw @ h) = [])", OF _ assms])
  fix retry :: "env \<Rightarrow> Switch \<Rightarrow> Switch option" and env sw y
  assume IH: "\<And>e s y. retry e s = Some y \<Longrightarrow> \<not> (\<forall>h. ListPeers e (calls s @ h) = [])"
    and step: "(case RoutingTable_ListPeers env (bootstrap_pass env (BootStrap (cfg sw)) sw) of
                 (ps, sw1) \<Rightarrow> if length ps = 0 then retry env sw1 else Some sw1) = Some y"
  show "\<not> (\<forall>h. ListPeers env (calls sw @ h) = [])"
  proof
    assume h: "\<forall>h. ListPeers env (calls sw @ h) = []"
    obtain t where t: "calls (bootstrap_pass env (BootStrap (cfg sw)) sw) = calls sw @ t"
      using bootstrap_pass_calls_grow by blast
    with h have "ListPeers env (calls (bootstrap_pass env (BootStrap (cfg sw)) sw)) = []" by simp
    with step have r: "retry env (call EvListPeers (bootstrap_pass env (BootStrap (cfg sw)) sw)) = Some y"
      by (simp add: RoutingTable_ListPeers_def)
    have "\<forall>u. ListPeers env (calls (call EvListPeers (bootstrap_pass env (BootStrap (cfg sw)) sw)) @ u) = []"
    proof
      fix u
      from h have "ListPeers env (calls sw @ (t @ EvListPeers # u)) = []" by blast
      with t show "ListPeers env (calls (call EvListPeers (bootstrap_pass env (BootStrap (cfg sw)) sw)) @ u) = []"
        by simp
    qed
    with IH [OF r] show False by blast
  qed
qed

lemma bootstrap_retry_diverges:
  assumes "\<forall>h. ListPeers env (calls sw @ h) = []"
  shows "bootstrap_retry env sw = None"
proof (cases "bootstrap_retry env sw")
  case None
  then show ?thesis .
next
  case (Some sw')
  from bootstrap_retry_table_stays_empty [OF Some] assms show ?thesis by blast
qed

text \<open>
  With nothing configured a pass makes no call, so the looks at the routing table
  follow one another: it is enough that these looks find it empty.
\<close>

lemma bootstrap_retry_nothing_configured:
  assumes "bootstrap_retry env sw = Some sw'"
  shows "\<not> (BootStrap (cfg sw) = [] \<and> (\<forall>n. ListPeers env (calls sw @ replicate n EvListPeers) = []))"
proof (rule bootstrap_retry.raw_induct
    [where P = "\<lambda>env sw sw'. \<not> (BootStrap (cfg sw) = []
                  \<and> (\<forall>n. ListPeers env (calls sw @ replicate n EvListPeers) = []))",
     OF _ assms])
  fix retry :: "env \<Rightarrow> Switch \<Rightarrow> Switch option" and env sw y
  assume IH: "\<And>e s y. retry e s = Some y \<Longrightarrow>
                 \<not> (BootStrap (cfg s) = [] \<and> (\<forall>n. ListPeers e (calls s @ replicate n EvListPeers) = []))"
    and step: "(case RoutingTable_ListPeers env (bootstrap_pass env (BootStrap (cfg sw)) sw) of
                 (ps, sw1) \<Rightarrow> if length ps = 0 then retry env sw1 else Some sw1) = Some y"
  show "\<not> (BootStrap (cfg sw) = [] \<and> (\<forall>n. ListPeers env (calls sw @ replicate n EvListPeers) = []))"
  proof
    assume h: "BootStrap (cfg sw) = [] \<and> (\<forall>n. ListPeers env (calls sw @ replicate n EvListPeers) = [])"
    then have "ListPeers env (calls sw @ replicate 0 EvListPeers) = []" by blast
    then have e: "ListPeers env (calls sw) = []" by simp
    with h step have r: "retry env (call EvListPeers sw) = Some y"
      by (simp add: RoutingTable_ListPeers_def)
    have "\<forall>n. ListPeers env (calls (call EvListPeers sw) @ replicate n EvListPeers) = []"
    proof
      fix n
      from h have "ListPeers env (calls sw @ replicate (Suc n) EvListPeers) = []" by blast
      then show "ListPeers env (calls (call EvListPeers sw) @ replicate n EvListPeers) = []"
        by simp
    qed
    with IH [OF r] h show False by simp
  qed
qed

lemma Start_never_returns:
  assumes "base64_DecodeString env (PrivateKey (cfg sw)) = Inr d"
    and "UnmarshalPrivateKey env d = Inr k"
    and "libp2p_New env (calls sw) (Address (cfg sw)) k = Inr h"
    and "host_Addrs h \<noteq> []"
    and "dht_New env (calls sw @ [EvHostNew (Address (cfg sw)) k, EvSetStreamHandler protocolPrefix]) h = None"
    and "kdht_Bootstrap env (calls sw @ [EvHostNew (Address (cfg sw)) k,
           EvSetStreamHandler protocolPrefix, EvDhtNew h]) = None"
    and "\<forall>hh. ListPeers env (calls sw @ hh) = []"
  shows "Start env sw = None"
  using assms
  by (simp add: Start_def Let_def bootstrap_def bootstrap_retry_diverges split: list.splits)

text \<open>
  C2. After each pass over the configured addresses \<^verbatim>\<open>bootstrap\<close> looks at the routing
  table: with a peer there it returns, without one it starts the pass again, so a
  \<^verbatim>\<open>bootstrap\<close> that returned saw a peer at its last look. If from now on the routing
  table stays empty, whatever calls follow, the loop never leaves, whatever is
  configured: in particular with nothing configured, where the passes make no call at
  all and one look follows the other, and with addresses none of which can be connected
  to. Then \<^verbatim>\<open>bootstrap\<close> does not return, and neither does a \<^verbatim>\<open>Start\<close> that got as far
  as calling it.
\<close>

theorem bootstrap_retries_until_peer:
  "(ListPeers env (calls (bootstrap_pass env (BootStrap (cfg sw)) sw)) \<noteq> [] \<longrightarrow>
      bootstrap_retry env sw = Some (call EvListPeers (bootstrap_pass env (BootStrap (cfg sw)) sw)))
   \<and> (ListPeers env (calls (bootstrap_pass env (BootStrap (cfg sw)) sw)) = [] \<longrightarrow>
      bootstrap_retry env sw =
        bootstrap_retry env (call EvListPeers (bootstrap_pass env (BootStrap (cfg sw)) sw)))
   \<and> (\<forall>sw'. bootstrap_retry env sw = Some sw' \<longrightarrow>
        (\<exists>s. sw' = call EvListPeers s \<and> ListPeers env (calls s) \<noteq> []))
   \<and> (BootStrap (cfg sw) = [] \<and> (\<forall>n. ListPeers env (calls sw @ replicate n EvListPeers) = []) \<longrightarrow>
        bootstrap_pass env (BootStrap (cfg sw)) sw = sw \<and> bootstrap_retry env sw = None)
   \<and> ((\<forall>h. ListPeers env (calls sw @ h) = []) \<longrightarrow>
        bootstrap_retry env sw = None
        \<and> (kdht_Bootstrap env (calls sw) = None \<longrightarrow> bootstrap env sw = None)
        \<and> (\<forall>d k h.
              base64_DecodeString env (PrivateKey (cfg sw)) = Inr d
              \<and> UnmarshalPrivateKey env d = Inr k
              \<and> libp2p_New env (calls sw) (Address (cfg sw)) k = Inr h
              \<and> host_Addrs h \<noteq> []
              \<and> dht_New env (calls sw @ [EvHostNew (Address (cfg sw)) k,
                    EvSetStreamHandler protocolPrefix]) h = None
              \<and> kdht_Bootstrap env (calls sw @ [EvHostNew (Address (cfg sw)) k,
                    EvSetStreamHandler protocolPrefix, EvDhtNew h]) = None
              \<longrightarrow> Start env sw = None))"
proof -
  have a: "ListPeers env (calls (bootstrap_pass env (BootStrap (cfg sw)) sw)) \<noteq> [] \<longrightarrow>
      bootstrap_retry env sw = Some (call EvListPeers (bootstrap_pass env (BootStrap (cfg sw)) sw))"
    using bootstrap_retry_unfold [of env sw] by simp
  have b: "ListPeers env (calls (bootstrap_pass env (BootStrap (cfg sw)) sw)) = [] \<longrightarrow>
      bootstrap_retry env sw =
        bootstrap_retry env (call EvListPeers (bootstrap_pass env (BootStrap (cfg sw)) sw))"
    using bootstrap_retry_unfold [of env sw] by simp
  have c: "\<forall>sw'. bootstrap_retry env sw = Some sw' \<longrightarrow>
        (\<exists>s. sw' = call EvListPeers s \<and> ListPeers env (calls s) \<noteq> [])"
    using bootstrap_retry_returns_nonempty by blast
  have d: "BootStrap (cfg sw) = [] \<and> (\<forall>n. ListPeers env (calls sw @ replicate n EvListPeers) = []) \<longrightarrow>
        bootstrap_pass env (BootStrap (cfg sw)) sw = sw \<and> bootstrap_retry env sw = None"
    using bootstrap_retry_nothing_configured [of env sw]
    by (cases "bootstrap_retry env sw") auto
  have e: "(\<forall>h. ListPeers env (calls sw @ h) = []) \<longrightarrow>
        bootstrap_retry env sw = None
        \<and> (kdht_Bootstrap env (calls sw) = None \<longrightarrow> bootstrap env sw = None)"
    by (simp add: bootstrap_def bootstrap_retry_diverges)
  from a b c d e show ?thesis
    using Start_never_returns [of env sw] by blast
qed

theorem bootstrap_retries_until_peer_witness:
  "bootstrap_retry env_quiet (NewSwitch (cfg_ex\<lparr>BootStrap := []\<rparr>)) = None
   \<and> bootstrap_retry env_quiet (NewSwitch (cfg_ex\<lparr>BootStrap := [addr_of ''QmC'']\<rparr>)) = None
   \<and> Start env_quiet (NewSwitch (cfg_ex\<lparr>BootStrap := [addr_of ''QmC'']\<rparr>)) = None
   \<and> bootstrap_retry env_ex (NewSwitch cfg_ex) \<noteq> None"
proof -
  have q: "\<forall>h. ListPeers env_quiet (calls (NewSwitch (cfg_ex\<lparr>BootStrap := [addr_of ''QmC'']\<rparr>)) @ h) = []"
    by (simp add: env_quiet_def)
  have n: "BootStrap (cfg (NewSwitch (cfg_ex\<lparr>BootStrap := []\<rparr>))) = []
      \<and> (\<forall>n. ListPeers env_quiet (calls (NewSwitch (cfg_ex\<lparr>BootStrap := []\<rparr>)) @ replicate n EvListPeers) = [])"
    by (simp add: env_quiet_def ex_defs Let_def)
  have s: "base64_DecodeString env_quiet (PrivateKey (cfg (NewSwitch (cfg_ex\<lparr>BootStrap := [addr_of ''QmC'']\<rparr>))))
             = Inr [1, 2, 3]
      \<and> UnmarshalPrivateKey env_quiet [1, 2, 3] = Inr [1, 2, 3]
      \<and> libp2p_New env_quiet (calls (NewSwitch (cfg_ex\<lparr>BootStrap := [addr_of ''QmC'']\<rparr>)))
           (Address (cfg (NewSwitch (cfg_ex\<lparr>BootStrap := [addr_of ''QmC'']\<rparr>)))) [1, 2, 3]
          = Inr \<lparr>host_ID = ''QmSelf'', host_Addrs = [''/ip4/10.0.0.1/tcp/3000'']\<rparr>
      \<and> host_Addrs \<lparr>host_ID = ''QmSelf'', host_Addrs = [''/ip4/10.0.0.1/tcp/3000'']\<rparr> \<noteq> []
      \<and> dht_New env_quiet (calls (NewSwitch (cfg_ex\<lparr>BootStrap := [addr_of ''QmC'']\<rparr>))
            @ [EvHostNew (Address (cfg (NewSwitch (cfg_ex\<lparr>BootStrap := [addr_of ''QmC'']\<rparr>)))) [1, 2, 3],
               EvSetStreamHandler protocolPrefix])
            \<lparr>host_ID = ''QmSelf'', host_Addrs = [''/ip4/10.0.0.1/tcp/3000'']\<rparr> = None
      \<and> kdht_Bootstrap env_quiet (calls (NewSwitch (cfg_ex\<lparr>BootStrap := [addr_of ''QmC'']\<rparr>))
            @ [EvHostNew (Address (cfg (NewSwitch (cfg_ex\<lparr>BootStrap := [addr_of ''QmC'']\<rparr>)))) [1, 2, 3],
               EvSetStreamHandler protocolPrefix,
               EvDhtNew \<lparr>host_ID = ''QmSelf'', host_Addrs = [''/ip4/10.0.0.1/tcp/3000'']\<rparr>]) = None"
    by (simp add: env_quiet_def ex_defs Let_def)
  have p: "ListPeers env_ex (calls (bootstrap_pass env_ex (BootStrap (cfg (NewSwitch cfg_ex)))
             (NewSwitch cfg_ex))) \<noteq> []"
    by (simp add: connect_def dialPeersAsync_def ext_defs ex_defs Let_def)
  from n bootstrap_retries_until_peer [of env_quiet "NewSwitch (cfg_ex\<lparr>BootStrap := []\<rparr>)"]
  have 1: "bootstrap_retry env_quiet (NewSwitch (cfg_ex\<lparr>BootStrap := []\<rparr>)) = None"
    by blast
  from q s bootstrap_retries_until_peer [of env_quiet "NewSwitch (cfg_ex\<lparr>BootStrap := [addr_of ''QmC'']\<rparr>)"]
  have 2: "bootstrap_retry env_quiet (NewSwitch (cfg_ex\<lparr>BootStrap := [addr_of ''QmC'']\<rparr>)) = None"
    and 3: "Start env_quiet (NewSwitch (cfg_ex\<lparr>BootStrap := [addr_of ''QmC'']\<rparr>)) = None"
    by blast+
  from p bootstrap_retries_until_peer [of env_ex "NewSwitch cfg_ex"]
  have 4: "bootstrap_retry env_ex (NewSwitch cfg_ex) \<noteq> None"
    by simp
  from 1 2 3 4 show ?thesis by blast
qed

subsection \<open>Start\<close>

lemma Start_key_fails:
  "base64_DecodeString env (PrivateKey (cfg sw)) = Inl e \<Longrightarrow> Start env sw = Some (Returns (Some e, sw))"
  "base64_DecodeString env (PrivateKey (cfg sw)) = Inr d \<Longrightarrow> UnmarshalPrivateKey env d = Inl e \<Longrightarrow>
     Start env sw = Some (Returns (Some e, sw))"
  by (simp_all add: Start_def)

lemma Start_host_fails:
  "base64_DecodeString env (PrivateKey (cfg sw)) = Inr d \<Longrightarrow> UnmarshalPrivateKey env d = Inr k \<Longrightarrow>
   libp2p_New env (calls sw) (Address (cfg sw)) k = Inl e \<Longrightarrow>
     Start env sw = Some (Returns (Some e,
        log_Error ''new libp2p host failed @ p2p.Start, err: %v'' [LErr (Some e)]
          (call (EvHostNew (Address (cfg sw)) k) sw)))"
  by (simp add: Start_def)

lemma Start_dht_fails:
  "base64_DecodeString env (PrivateKey (cfg sw)) = Inr d \<Longrightarrow> UnmarshalPrivateKey env d = Inr k \<Longrightarrow>
   libp2p_New env (calls sw) (Address (cfg sw)) k = Inr h \<Longrightarrow> host_Addrs h \<noteq> [] \<Longrightarrow>
   dht_New env (calls sw @ [EvHostNew (Address (cfg sw)) k, EvSetStreamHandler protocolPrefix]) h = Some e \<Longrightarrow>
     \<exists>s. Start env sw = Some (Returns (Some e, s))"
  by (simp add: Start_def Let_def split: list.splits)

lemma Start_no_error:
  assumes "base64_DecodeString env (PrivateKey (cfg sw)) = Inr d"
    and "UnmarshalPrivateKey env d = Inr k"
    and "libp2p_New env (calls sw) (Address (cfg sw)) k = Inr h"
    and "host_Addrs h \<noteq> []"
    and "dht_New env (calls sw @ [EvHostNew (Address (cfg sw)) k, EvSetStreamHandler protocolPrefix]) h = None"
    and "kdht_Bootstrap env (calls sw @ [EvHostNew (Address (cfg sw)) k,
           EvSetStreamHandler protocolPrefix, EvDhtNew h]) = None"
  shows "Start env sw = None \<or> (\<exists>s. Start env sw = Some (Returns (None, s)))"
  using assms
  by (auto simp: Start_def Let_def bootstrap_def split: list.splits option.splits)

text \<open>
  C5. \<^verbatim>\<open>Start\<close> returns the error when the key does not decode (base64 or unmarshal),
  when the host cannot be built, and when the DHT client cannot be built. Once these
  and the DHT's own bootstrap have succeeded, \<^verbatim>\<open>Start\<close> returns no error whatever the
  connection attempts to the configured addresses give: it returns nil, or it is still
  in \<^verbatim>\<open>bootstrap\<close>.
\<close>

theorem Start_errors:
  "(\<forall>e. base64_DecodeString env (PrivateKey (cfg sw)) = Inl e \<longrightarrow>
        Start env sw = Some (Returns (Some e, sw)))
   \<and> (\<forall>d. base64_DecodeString env (PrivateKey (cfg sw)) = Inr d \<longrightarrow>
        (\<forall>e. UnmarshalPrivateKey env d = Inl e \<longrightarrow> Start env sw = Some (Returns (Some e, sw)))
        \<and> (\<forall>k. UnmarshalPrivateKey env d = Inr k \<longrightarrow>
             (\<forall>e. libp2p_New env (calls sw) (Address (cfg sw)) k = Inl e \<longrightarrow>
                  (\<exists>s. Start env sw = Some (Returns (Some e, s))))
             \<and> (\<forall>h. libp2p_New env (calls sw) (Address (cfg sw)) k = Inr h \<and> host_Addrs h \<noteq> [] \<longrightarrow>
                  (\<forall>e. dht_New env (calls sw @ [EvHostNew (Address (cfg sw)) k,
                            EvSetStreamHandler protocolPrefix]) h = Some e \<longrightarrow>
                       (\<exists>s. Start env sw = Some (Returns (Some e, s))))
                  \<and> (dht_New env (calls sw @ [EvHostNew (Address (cfg sw)) k,
                            EvSetStreamHandler protocolPrefix]) h = None
                     \<and> kdht_Bootstrap env (calls sw @ [EvHostNew (Address (cfg sw)) k,
                            EvSetStreamHandler protocolPrefix, EvDhtNew h]) = None \<longrightarrow>
                       Start env sw = None \<or> (\<exists>s. Start env sw = Some (Returns (None, s)))))))"
  using Start_key_fails [of env sw] Start_host_fails [of env sw] Start_dht_fails [of env sw]
    Start_no_error [of env sw]
  by blast

text \<open>
  With a key that is not base64 \<^verbatim>\<open>Start\<close> returns the decode error. With the good key
  and the two configured addresses, of which \<open>QmC\<close> cannot be connected to, it returns nil.
\<close>

theorem Start_errors_witness:
  "Start env_ex (NewSwitch (cfg_ex\<lparr>PrivateKey := []\<rparr>)) =
     Some (Returns (Some (LibError ''illegal base64 data''), NewSwitch (cfg_ex\<lparr>PrivateKey := []\<rparr>)))
   \<and> fst (connect env_ex (addr_of ''QmC'') (NewSwitch cfg_ex)) = Some (LibError ''dial backoff'')
   \<and> Start env_ex (NewSwitch cfg_ex) \<noteq> None
   \<and> (case Start env_ex (NewSwitch cfg_ex) of
         Some (Returns (r, s)) \<Rightarrow> r = None
       | Some (Panics m) \<Rightarrow> False
       | None \<Rightarrow> False)"
proof -
  have k: "base64_DecodeString env_ex (PrivateKey (cfg (NewSwitch (cfg_ex\<lparr>PrivateKey := []\<rparr>))))
             = Inl (LibError ''illegal base64 data'')"
    by (simp add: ex_defs Let_def)
  have u: "fst (connect env_ex (addr_of ''QmC'') (NewSwitch cfg_ex)) = Some (LibError ''dial backoff'')"
    by (simp add: connect_def Connect_def ex_defs Let_def)
  have g: "base64_DecodeString env_ex (PrivateKey (cfg (NewSwitch cfg_ex))) = Inr [1, 2, 3]"
    "UnmarshalPrivateKey env_ex [1, 2, 3] = Inr [1, 2, 3]"
    "libp2p_New env_ex (calls (NewSwitch cfg_ex)) (Address (cfg (NewSwitch cfg_ex))) [1, 2, 3]
       = Inr \<lparr>host_ID = ''QmSelf'', host_Addrs = [''/ip4/10.0.0.1/tcp/3000'']\<rparr>
     \<and> host_Addrs \<lparr>host_ID = ''QmSelf'', host_Addrs = [''/ip4/10.0.0.1/tcp/3000'']\<rparr> \<noteq> []"
    "dht_New env_ex (calls (NewSwitch cfg_ex)
        @ [EvHostNew (Address (cfg (NewSwitch cfg_ex))) [1, 2, 3], EvSetStreamHandler protocolPrefix])
        \<lparr>host_ID = ''QmSelf'', host_Addrs = [''/ip4/10.0.0.1/tcp/3000'']\<rparr> = None
     \<and> kdht_Bootstrap env_ex (calls (NewSwitch cfg_ex)
        @ [EvHostNew (Address (cfg (NewSwitch cfg_ex))) [1, 2, 3], EvSetStreamHandler protocolPrefix,
           EvDhtNew \<lparr>host_ID = ''QmSelf'', host_Addrs = [''/ip4/10.0.0.1/tcp/3000'']\<rparr>]) = None"
    by (simp_all add: ex_defs Let_def)
  have r: "Start env_ex (NewSwitch cfg_ex) \<noteq> None"
    apply (simp add: Start_def Let_def bootstrap_def ex_defs)
    apply (subst bootstrap_retry_unfold)
    apply (simp add: connect_def dialPeersAsync_def ext_defs ex_defs Let_def)
    done
  from k Start_errors [of env_ex "NewSwitch (cfg_ex\<lparr>PrivateKey := []\<rparr>)"]
  have 1: "Start env_ex (NewSwitch (cfg_ex\<lparr>PrivateKey := []\<rparr>)) =
     Some (Returns (Some (LibError ''illegal base64 data''), NewSwitch (cfg_ex\<lparr>PrivateKey := []\<rparr>)))"
    by blast
  from g Start_errors [of env_ex "NewSwitch cfg_ex"]
  have "Start env_ex (NewSwitch cfg_ex) = None
        \<or> (\<exists>s. Start env_ex (NewSwitch cfg_ex) = Some (Returns (None, s)))"
    by blast
  then have 2: "case Start env_ex (NewSwitch cfg_ex) of
                   Some (Returns (r, s)) \<Rightarrow> r = None
                 | Some (Panics m) \<Rightarrow> False
                 | None \<Rightarrow> False"
  proof
    assume "Start env_ex (NewSwitch cfg_ex) = None"
    with r show ?thesis by (rule notE)
  next
    assume "\<exists>s. Start env_ex (NewSwitch cfg_ex) = Some (Returns (None, s))"
    then obtain s where "Start env_ex (NewSwitch cfg_ex) = Some (Returns (None, s))" ..
    then show ?thesis by simp
  qed
  from 1 u r 2 show ?thesis by (intro conjI)
qed

end
